theory Spec2Isabelle
  imports Complex_Main
begin

section \<open>Data model of the player (src/src/App.tsx)\<close>

text \<open>
  The component \<open>App\<close> keeps its state in React state cells and refs. The model is one
  record holding every cell and ref, together with the two pieces of browser state the
  handlers read: \<open>document.fullscreenElement\<close> and the table of pending timers. Every
  handler is a function from the state before the event to the state after it and the
  list of commands it issued to the browser, in the order of issue. Each event is
  handled on the state of the latest render, which is how React runs the handlers when
  a render separates two events.

  JavaScript numbers that hold times and volumes are modelled as reals: rounding, NaN
  and the infinities are outside the model. Indices are integers, since the source uses
  \<open>-1\<close> for "no track".
\<close>

datatype media_kind = Audio | Video

text \<open>\<open>interface Track\<close>: \<open>id\<close>, \<open>name\<close>, \<open>url\<close>, \<open>type\<close>; the optional \<open>duration\<close> is never
  written by the source and is left out.\<close>

record track =
  track_id :: string
  track_name :: string
  track_url :: string
  track_type :: media_kind

text \<open>
  A \<open>File\<close> handed over by the file picker or by a drop. The two answers the environment
  gives while the file is turned into a track travel with it: \<open>rand_id\<close> is what
  \<open>Math.random().toString(36).substr(2, 9)\<close> yields for this file, \<open>object_url\<close> is what
  \<open>URL.createObjectURL(file)\<close> returns.
\<close>

record js_file =
  file_name :: string
  file_type :: string
  rand_id :: string
  object_url :: string

datatype dom_error = NotAllowedError | NotSupportedError | AbortError | InvalidStateError

text \<open>How a promise of the browser settles.\<close>

datatype promise_result = Fulfilled | Rejected dom_error

datatype timer_callback = HideVolumeIndicator | HideControls

text \<open>The commands a handler issues to the browser.\<close>

datatype effect =
    PreventDefault
  | StopPropagation
  | CreateObjectURL string
  | RevokeObjectURL string
  | MediaPlay
  | MediaPause
  | ContextResume
  | RequestFullscreen
  | ExitFullscreen
  | ConsoleError dom_error
  | UnhandledRejection dom_error
  | NewAudioContext
  | CreateAnalyser
  | CreateMediaElementSource
  | ConnectSourceToAnalyser
  | ConnectAnalyserToDestination
  | SetTimeout nat nat
  | ClearTimeout nat

record volume_indicator =
  ind_value :: real
  ind_visible :: bool

text \<open>The properties of the \<open>video\<close> element behind \<open>mediaRef\<close> that the handlers read or write.\<close>

record media_element =
  el_currentTime :: real
  el_duration :: real
  el_volume :: real

datatype ctx_state = Suspended | Running | Closed

record audio_context =
  ctx_state :: ctx_state

record analyser_node =
  fftSize :: nat

datatype source_node = MediaElementSource

record app =
  tracks :: "track list"
  currentTrackIndex :: int
  isPlaying :: bool
  volume :: real
  currentTime :: real
  duration :: real
  isMuted :: bool
  showPlaylist :: bool
  volumeIndicator :: volume_indicator
  isFullscreen :: bool
  isVideoOnly :: bool
  showControls :: bool
  mediaRef :: "media_element option"
  containerRef :: bool
  volumeTimeoutRef :: "nat option"
  controlsTimeoutRef :: "nat option"
  audioContextRef :: "audio_context option"
  analyserRef :: "analyser_node option"
  sourceRef :: "source_node option"
  fullscreenElement :: bool
  pending_timers :: "(nat \<times> timer_callback) list"
  next_timer_id :: nat

text \<open>
  The state after the first render: the initial values of the \<open>useState\<close> and \<open>useRef\<close>
  calls, with the hidden \<open>video\<close> element and the container mounted and the volume
  effect run once (the element's volume is the initial \<open>volume\<close>). The mount effect that
  builds the audio graph is the event \<open>InitAudioGraph\<close> below. Timer ids start at 1, as
  the browser's do.
\<close>

definition initial_app :: app where
  "initial_app =
     \<lparr> tracks = [], currentTrackIndex = -1, isPlaying = False, volume = 7 / 10,
       currentTime = 0, duration = 0, isMuted = False, showPlaylist = True,
       volumeIndicator = \<lparr> ind_value = 7 / 10, ind_visible = False \<rparr>,
       isFullscreen = False, isVideoOnly = False, showControls = True,
       mediaRef = Some \<lparr> el_currentTime = 0, el_duration = 0, el_volume = 7 / 10 \<rparr>,
       containerRef = True, volumeTimeoutRef = None, controlsTimeoutRef = None,
       audioContextRef = None, analyserRef = None, sourceRef = None,
       fullscreenElement = False, pending_timers = [], next_timer_id = 1 \<rparr>"

section \<open>Track registry\<close>

text \<open>\<open>String.prototype.startsWith\<close>.\<close>

definition startsWith :: "string \<Rightarrow> string \<Rightarrow> bool" where
  "startsWith s p = (take (length p) s = p)"

text \<open>\<open>Array.prototype.findIndex\<close>: the index of the first element that satisfies the
  predicate, \<open>-1\<close> when there is none.\<close>

definition findIndex :: "('a \<Rightarrow> bool) \<Rightarrow> 'a list \<Rightarrow> int" where
  "findIndex p xs =
     (if list_ex p xs then int (length (takeWhile (\<lambda>x. \<not> p x) xs)) else -1)"

text \<open>
  \<open>file.name.replace(/\.[^/.]+$/, "")\<close>: the pattern can only match at the last dot of the
  name, and does so when at least one character follows it and none of them is a slash.
\<close>

definition strip_extension :: "string \<Rightarrow> string" where
  "strip_extension n =
     (let ext = takeWhile (\<lambda>c. c \<noteq> CHR ''.'') (rev n)
      in if length ext < length n \<and> ext \<noteq> [] \<and> CHR ''/'' \<notin> set ext
         then take (length n - length ext - 1) n
         else n)"

definition accepted :: "js_file \<Rightarrow> bool" where
  "accepted f = (startsWith (file_type f) ''audio/'' \<or> startsWith (file_type f) ''video/'')"

definition mk_track :: "js_file \<Rightarrow> track" where
  "mk_track f =
     \<lparr> track_id = rand_id f,
       track_name = strip_extension (file_name f),
       track_url = object_url f,
       track_type = (if startsWith (file_type f) ''video/'' then Video else Audio) \<rparr>"

text \<open>The \<open>filter\<close> and \<open>map\<close> chain shared by \<open>handleFileChange\<close> and \<open>handleDrop\<close>.\<close>

definition newTracks :: "js_file list \<Rightarrow> track list" where
  "newTracks files = map mk_track (filter accepted files)"

definition created_urls :: "js_file list \<Rightarrow> effect list" where
  "created_urls files = map (\<lambda>f. CreateObjectURL (object_url f)) (filter accepted files)"

text \<open>\<open>handleFileChange\<close> (lines 89 to 106). \<open>None\<close> is a null \<open>e.target.files\<close>.\<close>

definition handleFileChange :: "js_file list option \<Rightarrow> app \<Rightarrow> app \<times> effect list" where
  "handleFileChange fs s =
     (case fs of
        None \<Rightarrow> (s, [])
      | Some files \<Rightarrow>
          (let s1 = s\<lparr>tracks := tracks s @ newTracks files\<rparr>;
               s2 = (if currentTrackIndex s = -1 then s1\<lparr>currentTrackIndex := 0\<rparr> else s1)
           in (s2, created_urls files)))"

text \<open>\<open>handleDrop\<close> (lines 265 to 285).\<close>

definition handleDrop :: "js_file list option \<Rightarrow> app \<Rightarrow> app \<times> effect list" where
  "handleDrop fs s =
     (case fs of
        None \<Rightarrow> (s, [PreventDefault])
      | Some files \<Rightarrow>
          (if length (newTracks files) > 0
           then (let s1 = s\<lparr>tracks := tracks s @ newTracks files\<rparr>;
                     s2 = (if currentTrackIndex s = -1 then s1\<lparr>currentTrackIndex := 0\<rparr> else s1)
                 in (s2, PreventDefault # created_urls files))
           else (s, PreventDefault # created_urls files)))"

text \<open>\<open>removeTrack\<close> (lines 118 to 128).\<close>

definition removeTrack :: "string \<Rightarrow> app \<Rightarrow> app \<times> effect list" where
  "removeTrack i s =
     (let index = findIndex (\<lambda>t. track_id t = i) (tracks s);
          s1 = (if index = currentTrackIndex s
                then s\<lparr>isPlaying := False, currentTrackIndex := -1\<rparr>
                else if index < currentTrackIndex s
                then s\<lparr>currentTrackIndex := currentTrackIndex s - 1\<rparr>
                else s)
      in (s1\<lparr>tracks := filter (\<lambda>t. track_id t \<noteq> i) (tracks s1)\<rparr>, [StopPropagation]))"

text \<open>JavaScript's \<open>%\<close> on integers: the remainder takes the sign of the dividend.\<close>

definition js_rem :: "int \<Rightarrow> int \<Rightarrow> int" where
  "js_rem a b = sgn a * (\<bar>a\<bar> mod \<bar>b\<bar>)"

text \<open>\<open>nextTrack\<close> and \<open>prevTrack\<close> (lines 108 to 116).\<close>

definition nextTrack :: "app \<Rightarrow> app" where
  "nextTrack s =
     (if length (tracks s) = 0 then s
      else s\<lparr>currentTrackIndex := js_rem (currentTrackIndex s + 1) (int (length (tracks s)))\<rparr>)"

definition prevTrack :: "app \<Rightarrow> app" where
  "prevTrack s =
     (if length (tracks s) = 0 then s
      else s\<lparr>currentTrackIndex :=
             js_rem (currentTrackIndex s - 1 + int (length (tracks s))) (int (length (tracks s)))\<rparr>)"

text \<open>\<open>currentTrack\<close> (line 69); an index past the end reads \<open>undefined\<close>, which the source
  treats like \<open>null\<close>.\<close>

definition currentTrack :: "app \<Rightarrow> track option" where
  "currentTrack s =
     (if currentTrackIndex s \<ge> 0 \<and> currentTrackIndex s < int (length (tracks s))
      then Some (tracks s ! nat (currentTrackIndex s))
      else None)"

text \<open>The click handler of a playlist row (lines 542 to 545).\<close>

definition selectTrack :: "int \<Rightarrow> app \<Rightarrow> app" where
  "selectTrack index s = s\<lparr>currentTrackIndex := index, isPlaying := True\<rparr>"

section \<open>Playback controller\<close>

text \<open>
  \<open>togglePlay\<close> (lines 71 to 87). The argument is how \<open>audioContextRef.current.resume()\<close>
  settles when it is awaited. The function is \<open>async\<close>: \<open>Inl e\<close> is its promise rejected
  with \<open>e\<close>, which happens only when the awaited \<open>resume\<close> rejects, and then no state
  cell has been written; \<open>Inr s'\<close> is its promise fulfilled, with the state it leaves.
  \<open>play()\<close> returns a promise of its own, whose rejection arrives later and is handled by
  \<open>catch_console_error\<close> below.
\<close>

definition togglePlay :: "promise_result \<Rightarrow> app \<Rightarrow> (dom_error + app) \<times> effect list" where
  "togglePlay resumed s =
     (if mediaRef s = None \<or> length (tracks s) = 0 then (Inr s, [])
      else
        (case (case audioContextRef s of
                 None \<Rightarrow> (Inr s, [])
               | Some c \<Rightarrow>
                   (if ctx_state c = Suspended
                    then (case resumed of
                            Rejected e \<Rightarrow> (Inl e, [ContextResume])
                          | Fulfilled \<Rightarrow>
                              (Inr (s\<lparr>audioContextRef := Some (c\<lparr>ctx_state := Running\<rparr>)\<rparr>),
                               [ContextResume]))
                    else (Inr s, []))) of
           (Inl e, fx) \<Rightarrow> (Inl e, fx)
         | (Inr s1, fx) \<Rightarrow>
             (if isPlaying s
              then (Inr (s1\<lparr>isPlaying := False\<rparr>), fx @ [MediaPause])
              else
                (let s2 = (if currentTrackIndex s = -1 \<and> length (tracks s) > 0
                           then s1\<lparr>currentTrackIndex := 0\<rparr> else s1)
                 in (Inr (s2\<lparr>isPlaying := True\<rparr>), fx @ [MediaPlay])))))"

text \<open>\<open>.catch(console.error)\<close>, the rejection handler attached to every \<open>play()\<close>,
  \<open>requestFullscreen()\<close> and \<open>exitFullscreen()\<close> promise: it logs and touches no state.\<close>

definition catch_console_error :: "dom_error \<Rightarrow> app \<Rightarrow> app \<times> effect list" where
  "catch_console_error e s = (s, [ConsoleError e])"

text \<open>A caller that drops the promise of \<open>togglePlay\<close> (the key handler, the click
  handlers): a rejection is left unhandled.\<close>

definition dropped_promise :: "app \<Rightarrow> (dom_error + app) \<times> effect list \<Rightarrow> app \<times> effect list" where
  "dropped_promise s r =
     (case r of
        (Inl e, fx) \<Rightarrow> (s, fx @ [UnhandledRejection e])
      | (Inr s', fx) \<Rightarrow> (s', fx))"

text \<open>\<open>clearTimeout\<close> and \<open>setTimeout\<close> on the browser's timer table; the new timer's id
  is \<open>next_timer_id\<close> of the state it is set in.\<close>

definition clear_timeout :: "nat \<Rightarrow> app \<Rightarrow> app" where
  "clear_timeout t s = s\<lparr>pending_timers := filter (\<lambda>p. fst p \<noteq> t) (pending_timers s)\<rparr>"

definition set_timeout :: "timer_callback \<Rightarrow> app \<Rightarrow> app" where
  "set_timeout cb s =
     s\<lparr>pending_timers := pending_timers s @ [(next_timer_id s, cb)],
       next_timer_id := next_timer_id s + 1\<rparr>"

text \<open>\<open>showVolumeOverlay\<close> (lines 136 to 142). A timer id is truthy when it is not zero.\<close>

definition showVolumeOverlay :: "real \<Rightarrow> app \<Rightarrow> app \<times> effect list" where
  "showVolumeOverlay val s =
     (let s1 = s\<lparr>volumeIndicator := \<lparr> ind_value = val, ind_visible = True \<rparr>\<rparr>;
          cleared = (case volumeTimeoutRef s1 of
                       None \<Rightarrow> (s1, [])
                     | Some t \<Rightarrow> (if t \<noteq> 0 then (clear_timeout t s1, [ClearTimeout t])
                                 else (s1, [])));
          t' = next_timer_id (fst cleared)
      in ((set_timeout HideVolumeIndicator (fst cleared))\<lparr>volumeTimeoutRef := Some t'\<rparr>,
          snd cleared @ [SetTimeout t' 1000]))"

text \<open>\<open>adjustVolume\<close> (lines 144 to 151).\<close>

definition adjustVolume :: "real \<Rightarrow> app \<Rightarrow> app \<times> effect list" where
  "adjustVolume delta s =
     (let newVal = min 1 (max 0 (volume s + delta));
          shown = showVolumeOverlay newVal s
      in ((fst shown)\<lparr>volume := newVal, isMuted := False\<rparr>, snd shown))"

text \<open>\<open>seek\<close> (lines 153 to 157): it writes the element's \<open>currentTime\<close>, not the state cell.\<close>

definition seek :: "real \<Rightarrow> app \<Rightarrow> app" where
  "seek delta s =
     (case mediaRef s of
        None \<Rightarrow> s
      | Some el \<Rightarrow>
          s\<lparr>mediaRef :=
              Some (el\<lparr>el_currentTime := min (duration s) (max 0 (el_currentTime el + delta))\<rparr>)\<rparr>)"

text \<open>
  The progress slider (lines 453 to 465) is an \<open>input\<close> of type \<open>range\<close> with \<open>min = 0\<close>,
  \<open>max = duration || 0\<close> and \<open>step = 0.1\<close>. The browser sanitises the value of such an
  input before the change handler reads it (the value sanitization of the range state
  in the HTML standard): a value below \<open>min\<close> becomes \<open>min\<close>; a value above \<open>max\<close> becomes
  \<open>max\<close>, when \<open>max\<close> is not below \<open>min\<close>; a value off the steps counted from \<open>min\<close> is
  rounded to the nearest step within the bounds, the upper one on a tie. The arguments
  are \<open>min\<close>, \<open>max\<close>, \<open>step\<close> and the value the user's gesture asks for.
\<close>

definition range_value :: "real \<Rightarrow> real \<Rightarrow> real \<Rightarrow> real \<Rightarrow> real" where
  "range_value lo hi stp raw =
     (let v = (if raw < lo then lo else if lo \<le> hi \<and> hi < raw then hi else raw);
          k = \<lfloor>(v - lo) / stp\<rfloor>;
          below = lo + of_int k * stp;
          above = lo + of_int (k + 1) * stp
      in if v = below then v
         else if (hi < lo \<or> above \<le> hi) \<and> above - v \<le> v - below then above
         else below)"

text \<open>\<open>onChange\<close> of the progress slider (lines 459 to 463); the argument is
  \<open>parseFloat(e.target.value)\<close>.\<close>

definition progressChange :: "real \<Rightarrow> app \<Rightarrow> app" where
  "progressChange time s =
     (let s1 = s\<lparr>currentTime := time\<rparr>
      in case mediaRef s1 of
           None \<Rightarrow> s1
         | Some el \<Rightarrow> s1\<lparr>mediaRef := Some (el\<lparr>el_currentTime := time\<rparr>)\<rparr>)"

text \<open>The slider and its handler together: the user asks for \<open>raw\<close>, the input holds the
  sanitised value, and \<open>onChange\<close> runs on it. \<open>duration || 0\<close> is \<open>duration\<close> on the reals.\<close>

definition progressInput :: "real \<Rightarrow> app \<Rightarrow> app" where
  "progressInput raw s = progressChange (range_value 0 (duration s) (1 / 10) raw) s"

text \<open>\<open>onTimeUpdate\<close> and \<open>onLoadedMetadata\<close> of the \<open>video\<close> element (lines 371 and 372,
  429 and 430): \<open>mediaRef.current?.currentTime || 0\<close>.\<close>

definition onTimeUpdate :: "app \<Rightarrow> app" where
  "onTimeUpdate s =
     s\<lparr>currentTime := (case mediaRef s of None \<Rightarrow> 0 | Some el \<Rightarrow> el_currentTime el)\<rparr>"

definition onLoadedMetadata :: "app \<Rightarrow> app" where
  "onLoadedMetadata s =
     s\<lparr>duration := (case mediaRef s of None \<Rightarrow> 0 | Some el \<Rightarrow> el_duration el)\<rparr>"

section \<open>View modes\<close>

text \<open>\<open>toggleFullscreen\<close> (lines 159 to 169). \<open>containerRef.current?.requestFullscreen()\<close>
  issues the request only when the container is mounted.\<close>

definition toggleFullscreen :: "app \<Rightarrow> app \<times> effect list" where
  "toggleFullscreen s =
     (if \<not> fullscreenElement s
      then (s\<lparr>isFullscreen := True, isVideoOnly := False, showControls := False\<rparr>,
            if containerRef s then [RequestFullscreen] else [])
      else (s\<lparr>isFullscreen := False\<rparr>, [ExitFullscreen]))"

text \<open>\<open>toggleVideoOnly\<close> (lines 171 to 187).\<close>

definition toggleVideoOnly :: "app \<Rightarrow> app \<times> effect list" where
  "toggleVideoOnly s =
     (if \<not> fullscreenElement s
      then (s\<lparr>isVideoOnly := True, isFullscreen := True, showControls := False\<rparr>,
            if containerRef s then [RequestFullscreen] else [])
      else if isVideoOnly s
      then (s\<lparr>isVideoOnly := False, isFullscreen := False\<rparr>, [ExitFullscreen])
      else (s\<lparr>isVideoOnly := True, showControls := False\<rparr>, []))"

text \<open>\<open>handleFullscreenChange\<close> (lines 242 to 248).\<close>

definition handleFullscreenChange :: "app \<Rightarrow> app" where
  "handleFullscreenChange s =
     (let isCurrentlyFullscreen = fullscreenElement s;
          s1 = s\<lparr>isFullscreen := isCurrentlyFullscreen\<rparr>
      in if \<not> isCurrentlyFullscreen then s1\<lparr>isVideoOnly := False\<rparr> else s1)"

text \<open>\<open>handleMouseMove\<close> (lines 229 to 239).\<close>

definition handleMouseMove :: "app \<Rightarrow> app \<times> effect list" where
  "handleMouseMove s =
     (if \<not> isVideoOnly s \<and> \<not> isFullscreen s then (s\<lparr>showControls := True\<rparr>, [])
      else
        (let s1 = s\<lparr>showControls := True\<rparr>;
             cleared = (case controlsTimeoutRef s1 of
                          None \<Rightarrow> (s1, [])
                        | Some t \<Rightarrow> (if t \<noteq> 0 then (clear_timeout t s1, [ClearTimeout t])
                                    else (s1, [])));
             t' = next_timer_id (fst cleared)
         in ((set_timeout HideControls (fst cleared))\<lparr>controlsTimeoutRef := Some t'\<rparr>,
             snd cleared @ [SetTimeout t' 2000])))"

text \<open>The two timer callbacks (lines 140 and 237).\<close>

definition timer_callback_run :: "timer_callback \<Rightarrow> app \<Rightarrow> app" where
  "timer_callback_run cb s =
     (case cb of
        HideVolumeIndicator \<Rightarrow> s\<lparr>volumeIndicator := (volumeIndicator s)\<lparr>ind_visible := False\<rparr>\<rparr>
      | HideControls \<Rightarrow> s\<lparr>showControls := False\<rparr>)"

section \<open>Input dispatcher\<close>

text \<open>\<open>handleKeyDown\<close> (lines 190 to 219); the first argument is \<open>e.key\<close>.\<close>

definition handleKeyDown :: "string \<Rightarrow> promise_result \<Rightarrow> app \<Rightarrow> app \<times> effect list" where
  "handleKeyDown key resumed s =
     (let prevented =
            (if key \<in> set ['' '', ''ArrowUp'', ''ArrowDown'', ''ArrowLeft'', ''ArrowRight'']
             then [PreventDefault] else []);
          handled =
            (if key = '' '' then dropped_promise s (togglePlay resumed s)
             else if key = ''f'' \<or> key = ''F'' then toggleVideoOnly s
             else if key = ''ArrowUp'' then adjustVolume (5 / 100) s
             else if key = ''ArrowDown'' then adjustVolume (- (5 / 100)) s
             else if key = ''ArrowLeft'' then (seek (- 5) s, [])
             else if key = ''ArrowRight'' then (seek 5 s, [])
             else if key = ''Enter'' then toggleFullscreen s
             else (s, []))
      in (fst handled, prevented @ snd handled))"

text \<open>\<open>handleWheel\<close> (lines 225 to 227); the argument is \<open>e.deltaY\<close>.\<close>

definition handleWheel :: "real \<Rightarrow> app \<Rightarrow> app \<times> effect list" where
  "handleWheel deltaY s = adjustVolume (if deltaY > 0 then - (5 / 100) else 5 / 100) s"

section \<open>Audio analysis graph\<close>

text \<open>
  The mount effect (lines 52 to 67). The argument is the state in which the browser
  creates the audio context (suspended under an autoplay policy, running otherwise).
\<close>

definition initAudioGraph :: "ctx_state \<Rightarrow> app \<Rightarrow> app \<times> effect list" where
  "initAudioGraph created s =
     (if mediaRef s \<noteq> None \<and> audioContextRef s = None
      then (s\<lparr>audioContextRef := Some \<lparr> ctx_state = created \<rparr>,
               analyserRef := Some \<lparr> fftSize = 256 \<rparr>,
               sourceRef := Some MediaElementSource\<rparr>,
            [NewAudioContext, CreateAnalyser, CreateMediaElementSource,
             ConnectSourceToAnalyser, ConnectAnalyserToDestination])
      else (s, []))"

text \<open>\<open>AnalyserNode.frequencyBinCount\<close> is a read-only attribute of the Web Audio
  interface: half of \<open>fftSize\<close>. The visualizer reads it as \<open>bufferLength\<close>
  (line 605 of the source file).\<close>

definition frequencyBinCount :: "analyser_node \<Rightarrow> nat" where
  "frequencyBinCount a = fftSize a div 2"

definition bufferLength :: "analyser_node \<Rightarrow> nat" where
  "bufferLength a = frequencyBinCount a"

section \<open>Events and runs\<close>

text \<open>
  Everything that can happen to the mounted component: the handlers above, the
  remaining inline handlers of the markup, and the browser's own moves (a timer fires,
  OS fullscreen changes, a promise rejects, the element reports a time or a duration).
\<close>

datatype event =
    InitAudioGraph ctx_state
  | TogglePlayClick promise_result
  | FileChange "js_file list option"
  | Drop "js_file list option"
  | NextTrack
  | PrevTrack
  | Ended
  | RemoveTrack string
  | SelectTrack int
  | KeyDown string promise_result
  | Wheel real
  | MouseMove
  | ToggleFullscreenClick
  | ToggleVideoOnlyClick
  | FullscreenChange bool
  | PromiseRejected dom_error
  | TimerFired nat
  | TimeUpdate real
  | LoadedMetadata real
  | ProgressChange real
  | VolumeChange real
  | MuteClick
  | PlaylistClick

text \<open>The handler of each event, before the effects of the next render run.\<close>

definition handle :: "event \<Rightarrow> app \<Rightarrow> app \<times> effect list" where
  "handle ev s =
     (case ev of
        InitAudioGraph c \<Rightarrow> initAudioGraph c s
      | TogglePlayClick r \<Rightarrow> dropped_promise s (togglePlay r s)
      | FileChange fs \<Rightarrow> handleFileChange fs s
      | Drop fs \<Rightarrow> handleDrop fs s
      | NextTrack \<Rightarrow> (nextTrack s, [])
      | PrevTrack \<Rightarrow> (prevTrack s, [])
      | Ended \<Rightarrow> (nextTrack s, [])
      | RemoveTrack i \<Rightarrow> removeTrack i s
      | SelectTrack index \<Rightarrow> (selectTrack index s, [])
      | KeyDown key r \<Rightarrow> handleKeyDown key r s
      | Wheel deltaY \<Rightarrow> handleWheel deltaY s
      | MouseMove \<Rightarrow> handleMouseMove s
      | ToggleFullscreenClick \<Rightarrow> toggleFullscreen s
      | ToggleVideoOnlyClick \<Rightarrow> toggleVideoOnly s
      | FullscreenChange b \<Rightarrow> (handleFullscreenChange (s\<lparr>fullscreenElement := b\<rparr>), [])
      | PromiseRejected e \<Rightarrow> catch_console_error e s
      | TimerFired t \<Rightarrow>
          (case map_of (pending_timers s) t of
             None \<Rightarrow> (s, [])
           | Some cb \<Rightarrow> (timer_callback_run cb (clear_timeout t s), []))
      | TimeUpdate t \<Rightarrow>
          (onTimeUpdate (s\<lparr>mediaRef := map_option (\<lambda>el. el\<lparr>el_currentTime := t\<rparr>) (mediaRef s)\<rparr>), [])
      | LoadedMetadata d \<Rightarrow>
          (onLoadedMetadata (s\<lparr>mediaRef := map_option (\<lambda>el. el\<lparr>el_duration := d\<rparr>) (mediaRef s)\<rparr>), [])
      | ProgressChange raw \<Rightarrow> (progressInput raw s, [])
      | VolumeChange v \<Rightarrow> (s\<lparr>volume := v\<rparr>, [])
      | MuteClick \<Rightarrow> (s\<lparr>isMuted := \<not> isMuted s\<rparr>, [])
      | PlaylistClick \<Rightarrow> (s\<lparr>showPlaylist := \<not> showPlaylist s\<rparr>, []))"

text \<open>
  The two effects with dependencies (lines 253 to 263), run after the render that
  follows an event: the first when \<open>volume\<close> or \<open>isMuted\<close> changed, the second when
  \<open>currentTrackIndex\<close> changed.
\<close>

definition run_effects :: "app \<Rightarrow> app \<Rightarrow> app \<times> effect list" where
  "run_effects prev s =
     (let s1 = (if \<not> (volume s = volume prev \<and> isMuted s = isMuted prev)
                then s\<lparr>mediaRef :=
                        map_option (\<lambda>el. el\<lparr>el_volume := (if isMuted s then 0 else volume s)\<rparr>)
                          (mediaRef s)\<rparr>
                else s);
          fx = (if currentTrackIndex s \<noteq> currentTrackIndex prev
                   \<and> currentTrack s \<noteq> None \<and> isPlaying s \<and> mediaRef s \<noteq> None
                then [MediaPlay] else [])
      in (s1, fx))"

definition step :: "event \<Rightarrow> app \<Rightarrow> app \<times> effect list" where
  "step ev s =
     (let handled = handle ev s;
          rendered = run_effects s (fst handled)
      in (fst rendered, snd handled @ snd rendered))"

fun run :: "event list \<Rightarrow> app \<Rightarrow> app \<times> effect list" where
  "run [] s = (s, [])"
| "run (ev # evs) s =
     (let first = step ev s;
          rest = run evs (fst first)
      in (fst rest, snd first @ snd rest))"

section \<open>Concrete inputs\<close>

text \<open>A track used in the concrete instances below; its id also serves as its name.\<close>

definition demo_track :: "string \<Rightarrow> track" where
  "demo_track i = \<lparr> track_id = i, track_name = i, track_url = ''blob:'' @ i, track_type = Audio \<rparr>"

section \<open>Relations used in the proofs\<close>

text \<open>Two states hold the same analysis graph: the audio context is present in both or
  in neither, and the analyser and the source node are the same.\<close>

definition same_graph :: "app \<Rightarrow> app \<Rightarrow> bool" where
  "same_graph s s' =
     ((audioContextRef s' = None) = (audioContextRef s = None)
      \<and> analyserRef s' = analyserRef s \<and> sourceRef s' = sourceRef s)"

text \<open>A list of commands that creates no audio context, analyser or source node.\<close>

definition graph_free :: "effect list \<Rightarrow> bool" where
  "graph_free fx =
     (NewAudioContext \<notin> set fx \<and> CreateAnalyser \<notin> set fx \<and> CreateMediaElementSource \<notin> set fx)"

section \<open>Facts about the list operations\<close>

lemma takeWhile_less_ex:
  "list_ex p xs \<Longrightarrow> length (takeWhile (\<lambda>x. \<not> p x) xs) < length xs"
  by (induction xs) auto

lemma findIndex_range: "- 1 \<le> findIndex p xs \<and> findIndex p xs < int (length xs)"
  by (simp add: findIndex_def takeWhile_less_ex)

lemma filter_split_takeWhile:
  "filter (\<lambda>x. \<not> p x) xs =
     takeWhile (\<lambda>x. \<not> p x) xs @ filter (\<lambda>x. \<not> p x) (dropWhile (\<lambda>x. \<not> p x) xs)"
  by (induction xs) auto

lemma filter_distinct_key:
  "distinct (map f xs) \<Longrightarrow> list_ex (\<lambda>x. f x = i) xs \<Longrightarrow>
   filter (\<lambda>x. f x \<noteq> i) xs =
     take (length (takeWhile (\<lambda>x. f x \<noteq> i) xs)) xs
       @ drop (Suc (length (takeWhile (\<lambda>x. f x \<noteq> i) xs))) xs"
proof (induction xs)
  case Nil
  then show ?case by simp
next
  case (Cons x xs)
  show ?case
  proof (cases "f x = i")
    case True
    with Cons.prems have "\<forall>y\<in>set xs. f y \<noteq> i"
      by (auto simp: image_iff)
    then have "filter (\<lambda>x. f x \<noteq> i) xs = xs"
      by (simp add: filter_id_conv)
    with True show ?thesis by simp
  next
    case False
    with Cons show ?thesis by simp
  qed
qed

lemma handleDrop_index_range:
  "- 1 \<le> currentTrackIndex s \<and> currentTrackIndex s < int (length (tracks s)) \<Longrightarrow>
   - 1 \<le> currentTrackIndex (fst (handleDrop fs s))
   \<and> currentTrackIndex (fst (handleDrop fs s)) < int (length (tracks (fst (handleDrop fs s))))"
  by (cases fs) (auto simp: handleDrop_def Let_def simp del: length_greater_0_conv)

lemma removeTrack_index_range:
  assumes "distinct (map track_id (tracks s))"
    and "- 1 \<le> currentTrackIndex s \<and> currentTrackIndex s < int (length (tracks s))"
  shows "- 1 \<le> currentTrackIndex (fst (removeTrack i s))
   \<and> currentTrackIndex (fst (removeTrack i s)) < int (length (tracks (fst (removeTrack i s))))"
proof (cases "list_ex (\<lambda>t. track_id t = i) (tracks s)")
  case True
  let ?k = "length (takeWhile (\<lambda>t. track_id t \<noteq> i) (tracks s))"
  have k: "?k < length (tracks s)"
    using takeWhile_less_ex [OF True] by simp
  have "filter (\<lambda>t. track_id t \<noteq> i) (tracks s) = take ?k (tracks s) @ drop (Suc ?k) (tracks s)"
    using filter_distinct_key [OF assms(1) True] .
  then have len: "length (filter (\<lambda>t. track_id t \<noteq> i) (tracks s)) = length (tracks s) - 1"
    using k by simp
  show ?thesis
    using True k len assms(2) by (auto simp: removeTrack_def findIndex_def Let_def)
next
  case False
  then have "filter (\<lambda>t. track_id t \<noteq> i) (tracks s) = tracks s"
    by (auto simp: list_ex_iff filter_id_conv)
  with False assms(2) show ?thesis
    by (auto simp: removeTrack_def findIndex_def Let_def)
qed

lemma currentTrack_removeTrack_before:
  assumes d: "distinct (map track_id (tracks s))"
    and ex: "list_ex (\<lambda>t. track_id t = i) (tracks s)"
    and lt: "int (length (takeWhile (\<lambda>t. track_id t \<noteq> i) (tracks s))) < currentTrackIndex s"
  shows "currentTrack (s\<lparr>currentTrackIndex := currentTrackIndex s - 1,
                         tracks := filter (\<lambda>t. track_id t \<noteq> i) (tracks s)\<rparr>)
         = currentTrack s"
proof -
  let ?xs = "tracks s"
  let ?ys = "filter (\<lambda>t. track_id t \<noteq> i) ?xs"
  let ?k = "length (takeWhile (\<lambda>t. track_id t \<noteq> i) ?xs)"
  let ?c = "nat (currentTrackIndex s)"
  have k: "?k < length ?xs"
    using takeWhile_less_ex [OF ex] by simp
  have f: "?ys = take ?k ?xs @ drop (Suc ?k) ?xs"
    using filter_distinct_key [OF d ex] .
  have len: "int (length ?ys) = int (length ?xs) - 1"
    using k by (simp add: f)
  have pos: "1 \<le> currentTrackIndex s"
    using lt by linarith
  show ?thesis
  proof (cases "currentTrackIndex s < int (length ?xs)")
    case True
    have kc: "?k < ?c" and cl: "?c < length ?xs"
      using lt True by linarith+
    have "(take ?k ?xs @ drop (Suc ?k) ?xs) ! (?c - 1) = ?xs ! ?c"
      using kc cl k by (simp add: nth_append)
    moreover have "nat (currentTrackIndex s - 1) = ?c - 1"
      by simp
    ultimately have nth: "?ys ! nat (currentTrackIndex s - 1) = ?xs ! ?c"
      using f by simp
    have "0 \<le> currentTrackIndex s - 1 \<and> currentTrackIndex s - 1 < int (length ?ys)"
      using pos True len by linarith
    moreover have "0 \<le> currentTrackIndex s"
      using pos by linarith
    ultimately show ?thesis
      using True nth by (simp add: currentTrack_def)
  next
    case False
    then have "\<not> currentTrackIndex s - 1 < int (length ?ys)"
      using len by linarith
    with False show ?thesis
      by (simp add: currentTrack_def)
  qed
qed

lemma currentTrack_removeTrack_after:
  assumes ex: "list_ex (\<lambda>t. track_id t = i) (tracks s)"
    and lt: "currentTrackIndex s < int (length (takeWhile (\<lambda>t. track_id t \<noteq> i) (tracks s)))"
  shows "currentTrack (s\<lparr>tracks := filter (\<lambda>t. track_id t \<noteq> i) (tracks s)\<rparr>) = currentTrack s"
proof (cases "0 \<le> currentTrackIndex s")
  case True
  let ?xs = "tracks s"
  let ?ys = "filter (\<lambda>t. track_id t \<noteq> i) ?xs"
  let ?tw = "takeWhile (\<lambda>t. track_id t \<noteq> i) ?xs"
  let ?c = "nat (currentTrackIndex s)"
  have c: "?c < length ?tw"
    using True lt by linarith
  have k: "length ?tw < length ?xs"
    using takeWhile_less_ex [OF ex] by simp
  have f: "?ys = ?tw @ filter (\<lambda>t. track_id t \<noteq> i) (dropWhile (\<lambda>t. track_id t \<noteq> i) ?xs)"
    using filter_split_takeWhile [of "\<lambda>t. track_id t = i" ?xs] by simp
  have "?ys ! ?c = ?tw ! ?c"
    using c by (subst f) (simp add: nth_append)
  also have "\<dots> = ?xs ! ?c"
    using c by (rule takeWhile_nth)
  finally have nth: "?ys ! ?c = ?xs ! ?c" .
  have "length ?tw \<le> length ?ys"
    by (subst f) simp
  then have "currentTrackIndex s < int (length ?ys)"
    using lt by linarith
  moreover have "currentTrackIndex s < int (length ?xs)"
    using lt k by linarith
  ultimately show ?thesis
    using True nth by (simp add: currentTrack_def)
next
  case False
  then show ?thesis
    by (simp add: currentTrack_def)
qed

section \<open>The value of a range input\<close>


section \<open>Commands issued by the handlers\<close>

lemma togglePlay_effects:
  "set (snd (togglePlay r s)) \<subseteq> {ContextResume, MediaPlay, MediaPause}"
  by (auto simp: togglePlay_def Let_def split: option.splits promise_result.splits)

lemma dropped_togglePlay_effects:
  "set (snd (dropped_promise s (togglePlay r s)))
     \<subseteq> {ContextResume, MediaPlay, MediaPause} \<union> range UnhandledRejection"
proof -
  obtain res fx where eq: "togglePlay r s = (res, fx)"
    by (cases "togglePlay r s")
  with togglePlay_effects [of r s] have "set fx \<subseteq> {ContextResume, MediaPlay, MediaPause}"
    by simp
  then show ?thesis
    unfolding eq by (cases res) (auto simp: dropped_promise_def)
qed

lemma showVolumeOverlay_effects:
  "set (snd (showVolumeOverlay v s)) \<subseteq> range ClearTimeout \<union> range (\<lambda>t. SetTimeout t 1000)"
  by (auto simp: showVolumeOverlay_def Let_def split: option.splits)

lemma adjustVolume_effects:
  "set (snd (adjustVolume d s)) \<subseteq> range ClearTimeout \<union> range (\<lambda>t. SetTimeout t 1000)"
  using showVolumeOverlay_effects by (simp add: adjustVolume_def Let_def)

lemma toggleFullscreen_effects:
  "set (snd (toggleFullscreen s)) \<subseteq> {RequestFullscreen, ExitFullscreen}"
  by (auto simp: toggleFullscreen_def)

lemma toggleVideoOnly_effects:
  "set (snd (toggleVideoOnly s)) \<subseteq> {RequestFullscreen, ExitFullscreen}"
  by (auto simp: toggleVideoOnly_def)

lemma key_action_no_preventDefault:
  "PreventDefault \<notin> set (snd (dropped_promise s (togglePlay r s)))"
  "PreventDefault \<notin> set (snd (adjustVolume d s))"
  "PreventDefault \<notin> set (snd (toggleFullscreen s))"
  "PreventDefault \<notin> set (snd (toggleVideoOnly s))"
  using dropped_togglePlay_effects [of s r] adjustVolume_effects [of d s]
    toggleFullscreen_effects [of s] toggleVideoOnly_effects [of s]
  by auto

section \<open>The analysis graph under the handlers\<close>

lemma same_graph_refl: "same_graph s s"
  by (simp add: same_graph_def)

lemma same_graph_trans: "same_graph s s' \<Longrightarrow> same_graph s' s'' \<Longrightarrow> same_graph s s''"
  by (simp add: same_graph_def)

lemma graph_free_append: "graph_free (xs @ ys) = (graph_free xs \<and> graph_free ys)"
  by (auto simp: graph_free_def)

lemma togglePlay_graph:
  "same_graph s (fst (dropped_promise s (togglePlay r s)))
   \<and> graph_free (snd (dropped_promise s (togglePlay r s)))"
  by (auto simp: same_graph_def graph_free_def dropped_promise_def togglePlay_def Let_def
      split: option.splits promise_result.splits)

lemma adjustVolume_graph:
  "same_graph s (fst (adjustVolume d s)) \<and> graph_free (snd (adjustVolume d s))"
  by (auto simp: same_graph_def graph_free_def adjustVolume_def showVolumeOverlay_def
      set_timeout_def clear_timeout_def Let_def split: option.splits)

lemma toggleFullscreen_graph:
  "same_graph s (fst (toggleFullscreen s)) \<and> graph_free (snd (toggleFullscreen s))"
  by (simp add: same_graph_def graph_free_def toggleFullscreen_def)

lemma toggleVideoOnly_graph:
  "same_graph s (fst (toggleVideoOnly s)) \<and> graph_free (snd (toggleVideoOnly s))"
  by (simp add: same_graph_def graph_free_def toggleVideoOnly_def)

lemma seek_graph: "same_graph s (seek d s)"
  by (simp add: same_graph_def seek_def split: option.splits)

lemma handleKeyDown_graph:
  "same_graph s (fst (handleKeyDown key r s)) \<and> graph_free (snd (handleKeyDown key r s))"
  using togglePlay_graph [of s r] adjustVolume_graph [of s] toggleFullscreen_graph [of s]
    toggleVideoOnly_graph [of s] seek_graph [of s]
  by (simp add: handleKeyDown_def Let_def graph_free_append same_graph_refl)
    (simp add: graph_free_def)

lemma handleMouseMove_graph:
  "same_graph s (fst (handleMouseMove s)) \<and> graph_free (snd (handleMouseMove s))"
  by (auto simp: same_graph_def graph_free_def handleMouseMove_def
      set_timeout_def clear_timeout_def Let_def split: option.splits)

lemma ingestion_graph:
  "same_graph s (fst (handleFileChange fs s)) \<and> graph_free (snd (handleFileChange fs s))"
  "same_graph s (fst (handleDrop fs s)) \<and> graph_free (snd (handleDrop fs s))"
  by (auto simp: same_graph_def graph_free_def handleFileChange_def handleDrop_def
      created_urls_def Let_def split: option.splits)

lemma removeTrack_graph:
  "same_graph s (fst (removeTrack i s)) \<and> graph_free (snd (removeTrack i s))"
  by (simp add: same_graph_def graph_free_def removeTrack_def Let_def)

lemma initAudioGraph_existing:
  "audioContextRef s \<noteq> None \<Longrightarrow> initAudioGraph c s = (s, [])"
  by (simp add: initAudioGraph_def)

lemma handle_graph:
  assumes "audioContextRef s \<noteq> None"
  shows "same_graph s (fst (handle ev s)) \<and> graph_free (snd (handle ev s))"
proof (cases ev)
  case (InitAudioGraph c)
  with assms show ?thesis
    by (simp add: handle_def initAudioGraph_existing same_graph_refl graph_free_def)
next
  case (TogglePlayClick r)
  then show ?thesis
    using togglePlay_graph [of s r] by (simp add: handle_def)
next
  case (FileChange fs)
  then show ?thesis
    using ingestion_graph(1) [of s fs] by (simp add: handle_def)
next
  case (Drop fs)
  then show ?thesis
    using ingestion_graph(2) [of s fs] by (simp add: handle_def)
next
  case (RemoveTrack i)
  then show ?thesis
    using removeTrack_graph [of s i] by (simp add: handle_def)
next
  case (KeyDown key r)
  then show ?thesis
    using handleKeyDown_graph [of s key r] by (simp add: handle_def)
next
  case (Wheel deltaY)
  then show ?thesis
    using adjustVolume_graph [of s] by (simp add: handle_def handleWheel_def)
next
  case MouseMove
  then show ?thesis
    using handleMouseMove_graph [of s] by (simp add: handle_def)
next
  case ToggleFullscreenClick
  then show ?thesis
    using toggleFullscreen_graph [of s] by (simp add: handle_def)
next
  case ToggleVideoOnlyClick
  then show ?thesis
    using toggleVideoOnly_graph [of s] by (simp add: handle_def)
next
  case (TimerFired t)
  then show ?thesis
    by (simp add: handle_def same_graph_def graph_free_def timer_callback_run_def
        clear_timeout_def split: option.splits timer_callback.splits)
qed (simp_all add: handle_def same_graph_def graph_free_def nextTrack_def prevTrack_def
    selectTrack_def handleFullscreenChange_def Let_def catch_console_error_def onTimeUpdate_def
    onLoadedMetadata_def progressChange_def progressInput_def split: option.splits)

lemma run_effects_graph:
  "same_graph s (fst (run_effects prev s)) \<and> graph_free (snd (run_effects prev s))"
  by (simp add: run_effects_def same_graph_def graph_free_def Let_def)

lemma step_graph:
  assumes "audioContextRef s \<noteq> None"
  shows "same_graph s (fst (step ev s)) \<and> graph_free (snd (step ev s))"
  using handle_graph [OF assms, of ev] run_effects_graph [of "fst (handle ev s)" s]
  by (auto simp: step_def Let_def graph_free_append intro: same_graph_trans)

lemma run_graph:
  "audioContextRef s \<noteq> None \<Longrightarrow>
   same_graph s (fst (run evs s)) \<and> graph_free (snd (run evs s))"
proof (induction evs arbitrary: s)
  case Nil
  then show ?case
    by (simp add: same_graph_refl graph_free_def)
next
  case (Cons ev evs)
  have st: "same_graph s (fst (step ev s)) \<and> graph_free (snd (step ev s))"
    using step_graph [OF Cons.prems] .
  then have "audioContextRef (fst (step ev s)) \<noteq> None"
    using Cons.prems by (simp add: same_graph_def)
  from Cons.IH [OF this] st show ?case
    by (auto simp: Let_def graph_free_append intro: same_graph_trans)
qed

section \<open>Properties of the track registry\<close>

text \<open>
  C1. The property: over every sequence of ingestions and removals from the empty
  playlist, \<open>-1 \<le> currentTrackIndex < tracks.length\<close>, also when an ingestion supplies
  only files that are rejected. \<open>handleDrop\<close> keeps the bound (it selects index 0 only
  when a track was appended, \<open>handleDrop_index_range\<close>) and so does \<open>removeTrack\<close> on
  unique ids (\<open>removeTrack_index_range\<close>). \<open>handleFileChange\<close> has no such guard: on the
  first render, a selection whose only file is of type \<open>text/plain\<close> leaves the playlist
  empty and sets the index to 0, which is not below the length 0; the same file dropped
  leaves the state as it was.
\<close>

theorem handleFileChange_only_rejected_files:
  "tracks (fst (handleFileChange
          (Some [\<lparr> file_name = ''notes.txt'', file_type = ''text/plain'',
                   rand_id = ''k3j9x0q1z'', object_url = ''blob:1'' \<rparr>]) initial_app)) = []
   \<and> currentTrackIndex (fst (handleFileChange
          (Some [\<lparr> file_name = ''notes.txt'', file_type = ''text/plain'',
                   rand_id = ''k3j9x0q1z'', object_url = ''blob:1'' \<rparr>]) initial_app)) = 0
   \<and> \<not> currentTrackIndex (fst (handleFileChange
          (Some [\<lparr> file_name = ''notes.txt'', file_type = ''text/plain'',
                   rand_id = ''k3j9x0q1z'', object_url = ''blob:1'' \<rparr>]) initial_app))
        < int (length (tracks (fst (handleFileChange
          (Some [\<lparr> file_name = ''notes.txt'', file_type = ''text/plain'',
                   rand_id = ''k3j9x0q1z'', object_url = ''blob:1'' \<rparr>]) initial_app))))
   \<and> fst (handleDrop
          (Some [\<lparr> file_name = ''notes.txt'', file_type = ''text/plain'',
                   rand_id = ''k3j9x0q1z'', object_url = ''blob:1'' \<rparr>]) initial_app)
     = initial_app"
  by (simp add: handleFileChange_def handleDrop_def newTracks_def accepted_def startsWith_def
      initial_app_def)

text \<open>
  C2, as the code has it. For an id that is in the playlist (ids unique): the only
  command issued is \<open>stopPropagation\<close>, so no object URL is revoked; the playlist loses
  the tracks of that id; when the removed track is the active one, \<open>isPlaying\<close> becomes
  false and the index \<open>-1\<close>; when it stands before the active one, the index drops by one
  and the active track is the same track as before.
\<close>

theorem removeTrack_found:
  assumes "distinct (map track_id (tracks s))"
    and "0 \<le> findIndex (\<lambda>t. track_id t = i) (tracks s)"
  shows "snd (removeTrack i s) = [StopPropagation]
       \<and> tracks (fst (removeTrack i s)) = filter (\<lambda>t. track_id t \<noteq> i) (tracks s)
       \<and> (findIndex (\<lambda>t. track_id t = i) (tracks s) = currentTrackIndex s \<longrightarrow>
            \<not> isPlaying (fst (removeTrack i s))
            \<and> currentTrackIndex (fst (removeTrack i s)) = - 1)
       \<and> (findIndex (\<lambda>t. track_id t = i) (tracks s) < currentTrackIndex s \<longrightarrow>
            currentTrackIndex (fst (removeTrack i s)) = currentTrackIndex s - 1
            \<and> isPlaying (fst (removeTrack i s)) = isPlaying s
            \<and> currentTrack (fst (removeTrack i s)) = currentTrack s)"
proof -
  have ex: "list_ex (\<lambda>t. track_id t = i) (tracks s)"
    using assms(2) by (simp add: findIndex_def split: if_splits)
  have "findIndex (\<lambda>t. track_id t = i) (tracks s) < currentTrackIndex s \<Longrightarrow>
        currentTrack (fst (removeTrack i s)) = currentTrack s"
  proof -
    assume lt: "findIndex (\<lambda>t. track_id t = i) (tracks s) < currentTrackIndex s"
    then have "int (length (takeWhile (\<lambda>t. track_id t \<noteq> i) (tracks s))) < currentTrackIndex s"
      using ex by (simp add: findIndex_def)
    from currentTrack_removeTrack_before [OF assms(1) ex this] lt show ?thesis
      by (simp add: removeTrack_def Let_def)
  qed
  then show ?thesis
    by (auto simp: removeTrack_def Let_def)
qed

text \<open>C2, instances: removing the active track \<open>b\<close> of \<open>[a, b, c]\<close>, and removing \<open>a\<close>,
  which stands before the active track \<open>b\<close>.\<close>

theorem removeTrack_found_witness:
  "fst (removeTrack ''b''
       (initial_app\<lparr>tracks := [demo_track ''a'', demo_track ''b'', demo_track ''c''],
                     currentTrackIndex := 1, isPlaying := True\<rparr>))
     = initial_app\<lparr>tracks := [demo_track ''a'', demo_track ''c''],
                     currentTrackIndex := - 1, isPlaying := False\<rparr>
   \<and> currentTrack (fst (removeTrack ''a''
       (initial_app\<lparr>tracks := [demo_track ''a'', demo_track ''b'', demo_track ''c''],
                     currentTrackIndex := 1, isPlaying := True\<rparr>)))
     = Some (demo_track ''b'')
   \<and> currentTrackIndex (fst (removeTrack ''a''
       (initial_app\<lparr>tracks := [demo_track ''a'', demo_track ''b'', demo_track ''c''],
                     currentTrackIndex := 1, isPlaying := True\<rparr>))) = 0"
  using removeTrack_found [of
      "initial_app\<lparr>tracks := [demo_track ''a'', demo_track ''b'', demo_track ''c''],
                     currentTrackIndex := 1, isPlaying := True\<rparr>" "''b''"]
    removeTrack_found [of
      "initial_app\<lparr>tracks := [demo_track ''a'', demo_track ''b'', demo_track ''c''],
                     currentTrackIndex := 1, isPlaying := True\<rparr>" "''a''"]
  by (simp add: findIndex_def demo_track_def currentTrack_def removeTrack_def Let_def)

text \<open>
  C2, where the property as stated fails. With the playlist \<open>[a]\<close>, \<open>a\<close> active and playing:
  removing \<open>a\<close> revokes its object URL zero times, not once; and removing an id that no
  track has is not a no-op, since \<open>findIndex\<close> answers \<open>-1\<close>, which is less than the active
  index 0, and the index is decremented to \<open>-1\<close>.
\<close>

theorem removeTrack_release_and_absent_id:
  "fst (removeTrack ''a''
       (initial_app\<lparr>tracks := [demo_track ''a''], currentTrackIndex := 0, isPlaying := True\<rparr>))
     = initial_app\<lparr>tracks := [], currentTrackIndex := - 1, isPlaying := False\<rparr>
   \<and> count_list (snd (removeTrack ''a''
       (initial_app\<lparr>tracks := [demo_track ''a''], currentTrackIndex := 0, isPlaying := True\<rparr>)))
     (RevokeObjectURL (track_url (demo_track ''a''))) = 0
   \<and> fst (removeTrack ''zzz''
       (initial_app\<lparr>tracks := [demo_track ''a''], currentTrackIndex := 0, isPlaying := True\<rparr>))
     = initial_app\<lparr>tracks := [demo_track ''a''], currentTrackIndex := - 1, isPlaying := True\<rparr>"
  by (simp add: removeTrack_def findIndex_def demo_track_def Let_def)

section \<open>Properties of the playback controller\<close>

text \<open>
  C3, as the code has it. Whenever \<open>togglePlay\<close> issues a play command, its own promise
  is fulfilled (nothing is thrown to the caller, and a caller that drops the promise
  sees no unhandled rejection) and it leaves \<open>isPlaying\<close> true. When the
  play command is rejected later, the rejection is handled: the handler logs the error
  and writes no state, so \<open>isPlaying\<close> stays true and is not reverted.
\<close>

theorem togglePlay_play_rejected:
  assumes "togglePlay r s = (res, fx)" and "MediaPlay \<in> set fx"
  shows "\<exists>s1. res = Inr s1 \<and> isPlaying s1
           \<and> dropped_promise s (togglePlay r s) = (s1, fx)
           \<and> (\<forall>e'. UnhandledRejection e' \<notin> set fx)
           \<and> catch_console_error e s1 = (s1, [ConsoleError e])
           \<and> step (PromiseRejected e) s1 = (s1, [ConsoleError e])
           \<and> isPlaying (fst (step (PromiseRejected e) s1))"
  using assms
  by (auto simp: togglePlay_def catch_console_error_def step_def handle_def run_effects_def
      dropped_promise_def Let_def split: if_splits option.splits promise_result.splits)

text \<open>C3, instance: one track, selected and paused; the play command is rejected with
  \<open>NotAllowedError\<close>.\<close>

theorem togglePlay_play_rejected_witness:
  "togglePlay Fulfilled (initial_app\<lparr>tracks := [demo_track ''a''], currentTrackIndex := 0\<rparr>)
     = (Inr (initial_app\<lparr>tracks := [demo_track ''a''], currentTrackIndex := 0, isPlaying := True\<rparr>),
        [MediaPlay])
   \<and> step (PromiseRejected NotAllowedError)
        (initial_app\<lparr>tracks := [demo_track ''a''], currentTrackIndex := 0, isPlaying := True\<rparr>)
     = (initial_app\<lparr>tracks := [demo_track ''a''], currentTrackIndex := 0, isPlaying := True\<rparr>,
        [ConsoleError NotAllowedError])"
  using togglePlay_play_rejected [of Fulfilled
      "initial_app\<lparr>tracks := [demo_track ''a''], currentTrackIndex := 0\<rparr>"
      "Inr (initial_app\<lparr>tracks := [demo_track ''a''], currentTrackIndex := 0, isPlaying := True\<rparr>)"
      "[MediaPlay]" NotAllowedError]
  by (simp add: togglePlay_def initial_app_def)

text \<open>
  C3, where the property as stated fails: with one track selected and paused,
  \<open>togglePlay\<close> issues the play command and sets \<open>isPlaying\<close>; after the rejection has
  been handled \<open>isPlaying\<close> is still true, not false.
\<close>

theorem togglePlay_rejected_play_stays_playing:
  "togglePlay Fulfilled (initial_app\<lparr>tracks := [demo_track ''a''], currentTrackIndex := 0\<rparr>)
     = (Inr (initial_app\<lparr>tracks := [demo_track ''a''], currentTrackIndex := 0, isPlaying := True\<rparr>),
        [MediaPlay])
   \<and> isPlaying (fst (catch_console_error NotAllowedError
        (initial_app\<lparr>tracks := [demo_track ''a''], currentTrackIndex := 0, isPlaying := True\<rparr>)))
     \<noteq> False"
  by (simp add: togglePlay_def initial_app_def catch_console_error_def)



section \<open>Properties of the view modes\<close>

text \<open>
  C5, as the code has it. With OS fullscreen inactive, each toggle sets its flags when
  it issues the request (\<open>isFullscreen\<close>, \<open>isVideoOnly\<close> for the cinema toggle, controls
  hidden). A rejection of the request is only logged, and its handler writes no state:
  the flags stay set. A fullscreen change notification is what brings them in line with
  the OS: after one, \<open>isFullscreen\<close> is the OS state and \<open>isVideoOnly\<close> holds only if OS
  fullscreen is active and it held before.
\<close>

theorem fullscreen_request_rejected:
  assumes "\<not> fullscreenElement s" and "containerRef s"
  shows "toggleFullscreen s
           = (s\<lparr>isFullscreen := True, isVideoOnly := False, showControls := False\<rparr>,
              [RequestFullscreen])
       \<and> toggleVideoOnly s
           = (s\<lparr>isVideoOnly := True, isFullscreen := True, showControls := False\<rparr>,
              [RequestFullscreen])
       \<and> step (PromiseRejected e) (fst (toggleFullscreen s))
           = (fst (toggleFullscreen s), [ConsoleError e])
       \<and> step (PromiseRejected e) (fst (toggleVideoOnly s))
           = (fst (toggleVideoOnly s), [ConsoleError e])
       \<and> isFullscreen (fst (step (FullscreenChange b) s')) = b
       \<and> fullscreenElement (fst (step (FullscreenChange b) s')) = b
       \<and> isVideoOnly (fst (step (FullscreenChange b) s')) = (b \<and> isVideoOnly s')"
  using assms
  by (auto simp: toggleFullscreen_def toggleVideoOnly_def step_def handle_def run_effects_def
      catch_console_error_def handleFullscreenChange_def Let_def currentTrack_def)

text \<open>C5, instance: the fullscreen toggle on the first render, rejected; then a
  notification that OS fullscreen is inactive.\<close>

theorem fullscreen_request_rejected_witness:
  "fst (step (PromiseRejected NotAllowedError) (fst (toggleFullscreen initial_app)))
     = initial_app\<lparr>isFullscreen := True, isVideoOnly := False, showControls := False\<rparr>
   \<and> fst (step (FullscreenChange False)
        (initial_app\<lparr>isFullscreen := True, isVideoOnly := False, showControls := False\<rparr>))
     = initial_app\<lparr>showControls := False\<rparr>"
  using fullscreen_request_rejected [of initial_app NotAllowedError False
      "initial_app\<lparr>isFullscreen := True, isVideoOnly := False, showControls := False\<rparr>"]
  by (simp add: initial_app_def step_def handle_def run_effects_def handleFullscreenChange_def
      currentTrack_def toggleFullscreen_def toggleVideoOnly_def catch_console_error_def)

text \<open>
  C5, where the property as stated fails: on the first render, after the fullscreen
  toggle (or the cinema toggle) and the rejection of its request, \<open>isFullscreen\<close> (and
  \<open>isVideoOnly\<close>) is true and the controls are hidden, while OS fullscreen is inactive.
\<close>

theorem toggleFullscreen_rejected_flags:
  "fst (run [ToggleFullscreenClick, PromiseRejected NotAllowedError] initial_app)
     = initial_app\<lparr>isFullscreen := True, isVideoOnly := False, showControls := False\<rparr>
   \<and> snd (run [ToggleFullscreenClick, PromiseRejected NotAllowedError] initial_app)
     = [RequestFullscreen, ConsoleError NotAllowedError]
   \<and> fst (run [ToggleVideoOnlyClick, PromiseRejected NotAllowedError] initial_app)
     = initial_app\<lparr>isVideoOnly := True, isFullscreen := True, showControls := False\<rparr>
   \<and> fullscreenElement (initial_app\<lparr>isFullscreen := True, isVideoOnly := False, showControls := False\<rparr>) = False
   \<and> showControls (fst (run [ToggleFullscreenClick, PromiseRejected NotAllowedError] initial_app))
       \<noteq> showControls initial_app"
  by (simp add: initial_app_def step_def handle_def run_effects_def toggleFullscreen_def
      toggleVideoOnly_def catch_console_error_def currentTrack_def)

text \<open>
  C6, as the code has it. From Normal mode with OS fullscreen inactive, when the OS
  enters fullscreen on the first request: the cinema toggle, the notification that OS
  fullscreen is active, and the cinema toggle again. Both mode flags are false again,
  and the commands issued over the two calls are one fullscreen request and one exit
  request; the notification that OS fullscreen has ended issues nothing more. The same
  holds when the toggle comes from the \<open>f\<close> key.
\<close>

theorem toggleVideoOnly_twice:
  assumes "\<not> fullscreenElement s" and "\<not> isFullscreen s" and "\<not> isVideoOnly s"
    and "containerRef s"
  shows "run [ToggleVideoOnlyClick, FullscreenChange True, ToggleVideoOnlyClick] s
           = (s\<lparr>showControls := False, fullscreenElement := True\<rparr>,
              [RequestFullscreen, ExitFullscreen])
       \<and> run [ToggleVideoOnlyClick, FullscreenChange True, ToggleVideoOnlyClick,
               FullscreenChange False] s
           = (s\<lparr>showControls := False\<rparr>, [RequestFullscreen, ExitFullscreen])
       \<and> run [KeyDown ''f'' r, FullscreenChange True, KeyDown ''f'' r,
               FullscreenChange False] s
           = (s\<lparr>showControls := False\<rparr>, [RequestFullscreen, ExitFullscreen])
       \<and> count_list (snd (run [ToggleVideoOnlyClick, FullscreenChange True,
               ToggleVideoOnlyClick, FullscreenChange False] s)) ExitFullscreen = 1
       \<and> count_list (snd (run [ToggleVideoOnlyClick, FullscreenChange True,
               ToggleVideoOnlyClick, FullscreenChange False] s)) RequestFullscreen = 1
       \<and> \<not> isVideoOnly (fst (run [ToggleVideoOnlyClick, FullscreenChange True,
               ToggleVideoOnlyClick] s))
       \<and> \<not> isFullscreen (fst (run [ToggleVideoOnlyClick, FullscreenChange True,
               ToggleVideoOnlyClick] s))"
  using assms
  by (simp add: step_def handle_def run_effects_def toggleVideoOnly_def handleKeyDown_def
      handleFullscreenChange_def currentTrack_def)

text \<open>C6, instance: the first render.\<close>

theorem toggleVideoOnly_twice_witness:
  "run [ToggleVideoOnlyClick, FullscreenChange True, ToggleVideoOnlyClick,
        FullscreenChange False] initial_app
     = (initial_app\<lparr>showControls := False\<rparr>, [RequestFullscreen, ExitFullscreen])"
  using toggleVideoOnly_twice [of initial_app Fulfilled]
  by (simp add: initial_app_def)

text \<open>
  C6, where the property as stated fails. The toggle branches on
  \<open>document.fullscreenElement\<close>, which its own call does not set. On the first render,
  when the first request is rejected, or when the second call comes before the OS has
  answered, the second call takes the first branch again: the mode is Cinema, two
  fullscreen requests were issued and no exit request.
\<close>

theorem toggleVideoOnly_twice_not_granted:
  "run [ToggleVideoOnlyClick, PromiseRejected NotAllowedError, ToggleVideoOnlyClick] initial_app
     = (initial_app\<lparr>isVideoOnly := True, isFullscreen := True, showControls := False\<rparr>,
        [RequestFullscreen, ConsoleError NotAllowedError, RequestFullscreen])
   \<and> run [ToggleVideoOnlyClick, ToggleVideoOnlyClick] initial_app
     = (initial_app\<lparr>isVideoOnly := True, isFullscreen := True, showControls := False\<rparr>,
        [RequestFullscreen, RequestFullscreen])
   \<and> count_list (snd (run [ToggleVideoOnlyClick, PromiseRejected NotAllowedError,
        ToggleVideoOnlyClick] initial_app)) ExitFullscreen = 0
   \<and> count_list (snd (run [ToggleVideoOnlyClick, PromiseRejected NotAllowedError,
        ToggleVideoOnlyClick] initial_app)) RequestFullscreen = 2
   \<and> isVideoOnly (fst (run [ToggleVideoOnlyClick, PromiseRejected NotAllowedError,
        ToggleVideoOnlyClick] initial_app))"
  by (simp add: initial_app_def step_def handle_def run_effects_def toggleVideoOnly_def
      catch_console_error_def currentTrack_def)

section \<open>Properties of the audio analysis graph\<close>

text \<open>
  C7. On a state with the element mounted and no audio context, the mount effect creates
  the context, the analyser with \<open>fftSize = 256\<close> and the source node. From then on, over
  every run of events (further runs of the mount effect among them): the mount effect
  is a no-op that issues nothing, no context, analyser or source node is created, the
  analyser is the one created first, and the bin count the visualizer reads is 128.
\<close>

theorem audio_graph_initialised_once:
  assumes "mediaRef s \<noteq> None" and "audioContextRef s = None"
  shows "snd (initAudioGraph c s)
           = [NewAudioContext, CreateAnalyser, CreateMediaElementSource,
              ConnectSourceToAnalyser, ConnectAnalyserToDestination]
       \<and> audioContextRef (fst (initAudioGraph c s)) \<noteq> None
       \<and> analyserRef (fst (initAudioGraph c s)) = Some \<lparr> fftSize = 256 \<rparr>
       \<and> initAudioGraph c' (fst (run evs (fst (initAudioGraph c s))))
           = (fst (run evs (fst (initAudioGraph c s))), [])
       \<and> analyserRef (fst (run evs (fst (initAudioGraph c s)))) = Some \<lparr> fftSize = 256 \<rparr>
       \<and> map_option bufferLength (analyserRef (fst (run evs (fst (initAudioGraph c s)))))
           = Some 128
       \<and> sourceRef (fst (run evs (fst (initAudioGraph c s)))) = Some MediaElementSource
       \<and> audioContextRef (fst (run evs (fst (initAudioGraph c s)))) \<noteq> None
       \<and> NewAudioContext \<notin> set (snd (run evs (fst (initAudioGraph c s))))
       \<and> CreateAnalyser \<notin> set (snd (run evs (fst (initAudioGraph c s))))
       \<and> CreateMediaElementSource \<notin> set (snd (run evs (fst (initAudioGraph c s))))"
proof -
  let ?s1 = "fst (initAudioGraph c s)"
  have s1: "audioContextRef ?s1 \<noteq> None" "analyserRef ?s1 = Some \<lparr> fftSize = 256 \<rparr>"
    "sourceRef ?s1 = Some MediaElementSource"
    using assms by (simp_all add: initAudioGraph_def)
  have r: "same_graph ?s1 (fst (run evs ?s1)) \<and> graph_free (snd (run evs ?s1))"
    using run_graph [OF s1(1)] .
  then have ctx: "audioContextRef (fst (run evs ?s1)) \<noteq> None"
    using s1(1) by (simp add: same_graph_def)
  then have "initAudioGraph c' (fst (run evs ?s1)) = (fst (run evs ?s1), [])"
    by (rule initAudioGraph_existing)
  moreover have "snd (initAudioGraph c s)
           = [NewAudioContext, CreateAnalyser, CreateMediaElementSource,
              ConnectSourceToAnalyser, ConnectAnalyserToDestination]"
    using assms by (simp add: initAudioGraph_def)
  moreover have "bufferLength \<lparr> fftSize = 256 \<rparr> = 128"
    by (simp add: bufferLength_def frequencyBinCount_def)
  ultimately show ?thesis
    using r s1 ctx by (simp add: same_graph_def graph_free_def)
qed

text \<open>C7, instance: the first render, the mount effect run again, then the space key.\<close>

theorem audio_graph_initialised_once_witness:
  "analyserRef (fst (run [InitAudioGraph Running, KeyDown '' '' Fulfilled]
       (fst (initAudioGraph Suspended initial_app)))) = Some \<lparr> fftSize = 256 \<rparr>
   \<and> snd (run [InitAudioGraph Running, KeyDown '' '' Fulfilled]
       (fst (initAudioGraph Suspended initial_app))) = [PreventDefault]"
  using audio_graph_initialised_once [of initial_app Suspended Running
      "[InitAudioGraph Running, KeyDown '' '' Fulfilled]"]
  by (simp add: initial_app_def initAudioGraph_def step_def handle_def run_effects_def
      handleKeyDown_def togglePlay_def dropped_promise_def currentTrack_def)

section \<open>Properties of the input dispatcher\<close>

text \<open>
  C8, as the code has it. The key handler suppresses the default action exactly for the
  space key and the four arrow keys. \<open>Enter\<close> and \<open>f\<close> or \<open>F\<close> run their toggles and issue
  nothing else: their default action is not suppressed.
\<close>

theorem handleKeyDown_preventDefault:
  "(PreventDefault \<in> set (snd (handleKeyDown key r s)))
     = (key \<in> set ['' '', ''ArrowUp'', ''ArrowDown'', ''ArrowLeft'', ''ArrowRight''])
   \<and> handleKeyDown ''Enter'' r s = toggleFullscreen s
   \<and> handleKeyDown ''f'' r s = toggleVideoOnly s
   \<and> handleKeyDown ''F'' r s = toggleVideoOnly s
   \<and> handleKeyDown '' '' r s
       = (fst (dropped_promise s (togglePlay r s)),
          PreventDefault # snd (dropped_promise s (togglePlay r s)))
   \<and> handleKeyDown ''ArrowUp'' r s
       = (fst (adjustVolume (5 / 100) s), PreventDefault # snd (adjustVolume (5 / 100) s))
   \<and> handleKeyDown ''ArrowDown'' r s
       = (fst (adjustVolume (- (5 / 100)) s),
          PreventDefault # snd (adjustVolume (- (5 / 100)) s))
   \<and> handleKeyDown ''ArrowLeft'' r s = (seek (- 5) s, [PreventDefault])
   \<and> handleKeyDown ''ArrowRight'' r s = (seek 5 s, [PreventDefault])"
  by (simp add: handleKeyDown_def Let_def key_action_no_preventDefault)

text \<open>
  C8, where the property as stated fails: on the first render the handler issues the
  fullscreen request for \<open>Enter\<close>, \<open>F\<close> and \<open>f\<close>, and no \<open>preventDefault\<close>.
\<close>

theorem handleKeyDown_F_Enter_default:
  "PreventDefault \<notin> set (snd (handleKeyDown ''Enter'' Fulfilled initial_app))
   \<and> PreventDefault \<notin> set (snd (handleKeyDown ''F'' Fulfilled initial_app))
   \<and> PreventDefault \<notin> set (snd (handleKeyDown ''f'' Fulfilled initial_app))
   \<and> snd (handleKeyDown ''Enter'' Fulfilled initial_app) = [RequestFullscreen]
   \<and> snd (handleKeyDown ''F'' Fulfilled initial_app) = [RequestFullscreen]"
  by (simp add: handleKeyDown_def toggleFullscreen_def toggleVideoOnly_def initial_app_def)

section \<open>Frame conditions\<close>

text \<open>
  C9. With an empty playlist \<open>togglePlay\<close> returns at its first line: the state is the
  state before, and no command (no play, no pause, no resume) is issued, neither by the
  handler nor by the effects of the next render.
\<close>

theorem togglePlay_empty_playlist:
  "tracks s = [] \<Longrightarrow>
   togglePlay r s = (Inr s, []) \<and> step (TogglePlayClick r) s = (s, [])"
  by (simp add: togglePlay_def step_def handle_def dropped_promise_def run_effects_def)

text \<open>C9, instance: the first render, whose playlist is empty.\<close>

theorem togglePlay_empty_playlist_witness:
  "tracks initial_app = [] \<and>
   togglePlay Fulfilled initial_app = (Inr initial_app, []) \<and>
   step (TogglePlayClick Fulfilled) initial_app = (initial_app, [])"
  using togglePlay_empty_playlist [of initial_app Fulfilled]
  by (simp add: initial_app_def)

text \<open>
  C10. Removing a track that is in the playlist at an index greater than the active
  index changes \<open>tracks\<close> only: the index and \<open>isPlaying\<close> are as before, the playlist is
  shorter, and the active track is the same track.
\<close>

theorem removeTrack_after_active:
  assumes "0 \<le> findIndex (\<lambda>t. track_id t = i) (tracks s)"
    and "currentTrackIndex s < findIndex (\<lambda>t. track_id t = i) (tracks s)"
  shows "fst (removeTrack i s) = s\<lparr>tracks := filter (\<lambda>t. track_id t \<noteq> i) (tracks s)\<rparr>
       \<and> currentTrackIndex (fst (removeTrack i s)) = currentTrackIndex s
       \<and> isPlaying (fst (removeTrack i s)) = isPlaying s
       \<and> length (tracks (fst (removeTrack i s))) < length (tracks s)
       \<and> currentTrack (fst (removeTrack i s)) = currentTrack s"
proof -
  have ex: "list_ex (\<lambda>t. track_id t = i) (tracks s)"
    using assms(1) by (simp add: findIndex_def split: if_splits)
  then have lt: "currentTrackIndex s < int (length (takeWhile (\<lambda>t. track_id t \<noteq> i) (tracks s)))"
    using assms(2) by (simp add: findIndex_def)
  have eq: "fst (removeTrack i s) = s\<lparr>tracks := filter (\<lambda>t. track_id t \<noteq> i) (tracks s)\<rparr>"
    using assms by (simp add: removeTrack_def Let_def)
  obtain t where "t \<in> set (tracks s)" "track_id t = i"
    using ex by (auto simp: list_ex_iff)
  then have "length (filter (\<lambda>t. track_id t \<noteq> i) (tracks s)) < length (tracks s)"
    by (auto intro: length_filter_less)
  with eq currentTrack_removeTrack_after [OF ex lt] show ?thesis
    by simp
qed

text \<open>C10, instance: removing \<open>c\<close> from \<open>[a, b, c]\<close> while \<open>b\<close> is active and playing.\<close>

theorem removeTrack_after_active_witness:
  "currentTrack (fst (removeTrack ''c''
       (initial_app\<lparr>tracks := [demo_track ''a'', demo_track ''b'', demo_track ''c''],
                     currentTrackIndex := 1, isPlaying := True\<rparr>)))
     = Some (demo_track ''b'')
   \<and> fst (removeTrack ''c''
       (initial_app\<lparr>tracks := [demo_track ''a'', demo_track ''b'', demo_track ''c''],
                     currentTrackIndex := 1, isPlaying := True\<rparr>))
     = initial_app\<lparr>tracks := [demo_track ''a'', demo_track ''b''],
                     currentTrackIndex := 1, isPlaying := True\<rparr>"
  using removeTrack_after_active [of "''c''"
      "initial_app\<lparr>tracks := [demo_track ''a'', demo_track ''b'', demo_track ''c''],
                     currentTrackIndex := 1, isPlaying := True\<rparr>"]
  by (simp add: findIndex_def demo_track_def currentTrack_def)

end
